theory Spec2Isabelle
  imports Complex_Main "HOL-Library.Word"
begin

section \<open>Heat-pulse flow measurement (wx-flow firmware)\<close>

text \<open>
  A shallow embedding of \<^verbatim>\<open>hardware/wx-flow/firmware/heat_pulse.h\<close> with the constants of
  \<^verbatim>\<open>config.h\<close> it uses.

  Numbers. The firmware computes in C \<^verbatim>\<open>float\<close>; the embedding computes in \<^typ>\<open>real\<close>:
  every arithmetic operation, \<^verbatim>\<open>logf\<close>, \<^verbatim>\<open>sinf\<close>, \<^verbatim>\<open>cosf\<close> and \<^verbatim>\<open>atan2f\<close> is exact here,
  and rounding, overflow and NaN are not represented. Comparisons, branches and loop
  structure are those of the source. Two places are read a second time with the rounding
  that matters there: the direction of lines 128-137, and the baseline and the rise of one
  channel (lines 71-78 and 98-102) next to the stagnation threshold of line 114.

  The raw ADC sample is the \<^verbatim>\<open>int16_t\<close> of the source (a \<^typ>\<open>16 word\<close> read with
  \<^term>\<open>sint\<close>), the millisecond clock its \<^verbatim>\<open>unsigned long\<close> (a \<^typ>\<open>32 word\<close>, so that
  \<^verbatim>\<open>millis() - start_ms\<close> wraps as in C). The clock and the ADC are inputs: \<^verbatim>\<open>delay\<close> and
  the heater writes are recorded as events and have no effect of their own on what is
  read later, since every later reading is already part of the input trace.
\<close>

subsection \<open>Constants of config.h\<close>

definition CH_THERM_N :: nat where "CH_THERM_N = 0"
definition CH_THERM_E :: nat where "CH_THERM_E = 1"
definition CH_THERM_S :: nat where "CH_THERM_S = 2"
definition CH_THERM_W :: nat where "CH_THERM_W = 3"

definition PIN_HEATER :: nat where "PIN_HEATER = 38"

definition THERM_NOMINAL_R :: real where "THERM_NOMINAL_R = 10000"
definition THERM_NOMINAL_T :: real where "THERM_NOMINAL_T = 25"
definition THERM_B_COEFF :: real where "THERM_B_COEFF = 3950"
definition THERM_SERIES_R :: real where "THERM_SERIES_R = 10000"

definition HEATER_POWER_MS :: nat where "HEATER_POWER_MS = 4000"
definition HEATER_SETTLE_MS :: nat where "HEATER_SETTLE_MS = 500"
definition FLOW_SAMPLE_MS :: nat where "FLOW_SAMPLE_MS = 100"
definition FLOW_MONITOR_MS :: "32 word" where "FLOW_MONITOR_MS = 60000"

definition FLOW_CAL_K :: real where "FLOW_CAL_K = 900"

subsection \<open>Data\<close>

record FlowResult =
  velocity_cm_day :: real
  direction_deg :: real
  peak_temps :: "real list"
  peak_times :: "real list"
  valid :: bool

text \<open>
  The hardware is an input trace and a small state. \<open>adc_sample n ch\<close> is what the
  \<open>n\<close>-th call of \<^verbatim>\<open>readADC_SingleEnded\<close> returns when it asks for channel \<open>ch\<close>;
  \<open>millis_sample n\<close> is what the \<open>n\<close>-th call of \<^verbatim>\<open>millis()\<close> returns. The state counts
  the calls made so far and records what the code wrote to the outside world.
\<close>

record hw_input =
  adc_sample :: "nat \<Rightarrow> nat \<Rightarrow> 16 word"
  millis_sample :: "nat \<Rightarrow> 32 word"

datatype hw_event = PinModeOutput nat | DigitalWrite nat bool | Delay nat

record hw_state =
  adc_reads :: nat
  clock_reads :: nat
  events :: "hw_event list"

definition readADC_SingleEnded :: "hw_input \<Rightarrow> nat \<Rightarrow> hw_state \<Rightarrow> 16 word \<times> hw_state" where
  "readADC_SingleEnded inp channel s =
     (adc_sample inp (adc_reads s) channel, s\<lparr>adc_reads := Suc (adc_reads s)\<rparr>)"

definition millis :: "hw_input \<Rightarrow> hw_state \<Rightarrow> 32 word \<times> hw_state" where
  "millis inp s = (millis_sample inp (clock_reads s), s\<lparr>clock_reads := Suc (clock_reads s)\<rparr>)"

definition delay :: "nat \<Rightarrow> hw_state \<Rightarrow> hw_state" where
  "delay ms s = s\<lparr>events := events s @ [Delay ms]\<rparr>"

definition pinModeOutput :: "nat \<Rightarrow> hw_state \<Rightarrow> hw_state" where
  "pinModeOutput pin s = s\<lparr>events := events s @ [PinModeOutput pin]\<rparr>"

definition digitalWrite :: "nat \<Rightarrow> bool \<Rightarrow> hw_state \<Rightarrow> hw_state" where
  "digitalWrite pin level s = s\<lparr>events := events s @ [DigitalWrite pin level]\<rparr>"

subsection \<open>Temperature conversion: thermistor_temp (lines 31-48)\<close>

text \<open>
  \<open>voltage_of\<close> and \<open>r_therm_of\<close> are the locals \<^verbatim>\<open>voltage\<close> and \<^verbatim>\<open>r_therm\<close> of the source;
  \<open>convert_raw\<close> is the body of \<^verbatim>\<open>thermistor_temp\<close> after the ADC read, and
  \<open>thermistor_temp\<close> the whole function. At the one count whose exact voltage is 3.3
  (raw 26400) the divisor is zero and HOL's division gives 0, so the model returns the
  sentinel there (in float arithmetic the product \<^verbatim>\<open>26400 * 0.000125f\<close> rounds to a value
  just above \<^verbatim>\<open>3.3f\<close>: the quotient is negative and the code returns the sentinel too).
\<close>

definition voltage_of :: "16 word \<Rightarrow> real" where
  "voltage_of raw = real_of_int (sint raw) * 0.000125"

definition r_therm_of :: "16 word \<Rightarrow> real" where
  "r_therm_of raw = THERM_SERIES_R * voltage_of raw / (3.3 - voltage_of raw)"

definition convert_raw :: "16 word \<Rightarrow> real" where
  "convert_raw raw =
     (let r_therm = r_therm_of raw in
      if r_therm \<le> 0 then - 999
      else
        let steinhart = r_therm / THERM_NOMINAL_R;
            steinhart = ln steinhart;
            steinhart = steinhart / THERM_B_COEFF;
            steinhart = steinhart + 1 / (THERM_NOMINAL_T + 273.15);
            temp_c = 1 / steinhart - 273.15
        in temp_c)"

definition thermistor_temp :: "hw_input \<Rightarrow> nat \<Rightarrow> hw_state \<Rightarrow> real \<times> hw_state" where
  "thermistor_temp inp channel s =
     (let (raw, s') = readADC_SingleEnded inp channel s in (convert_raw raw, s'))"

text \<open>read_all_thermistors (lines 51-56): four conversions, in the order N, E, S, W.\<close>

definition read_all_thermistors :: "hw_input \<Rightarrow> hw_state \<Rightarrow> real list \<times> hw_state" where
  "read_all_thermistors inp s =
     (let (t0, s) = thermistor_temp inp CH_THERM_N s;
          (t1, s) = thermistor_temp inp CH_THERM_E s;
          (t2, s) = thermistor_temp inp CH_THERM_S s;
          (t3, s) = thermistor_temp inp CH_THERM_W s
      in ([t0, t1, t2, t3], s))"

subsection \<open>The measurement cycle: run_heat_pulse (lines 66-156)\<close>

text \<open>Step 1 (lines 71-78): the sum of ten four-channel readings, then divided by ten.\<close>

definition baseline_pass :: "hw_input \<Rightarrow> real list \<times> hw_state \<Rightarrow> real list \<times> hw_state" where
  "baseline_pass inp bs =
     (let (baseline, s) = bs;
          (t, s) = read_all_thermistors inp s;
          baseline = fold (\<lambda>j b. b[j := b ! j + t ! j]) [0..<4] baseline
      in (baseline, delay 50 s))"

definition acquire_baseline :: "hw_input \<Rightarrow> hw_state \<Rightarrow> real list \<times> hw_state" where
  "acquire_baseline inp s =
     (let (baseline, s) = fold (\<lambda>i. baseline_pass inp) [0..<10] ([0, 0, 0, 0], s)
      in (fold (\<lambda>j b. b[j := b ! j / 10]) [0..<4] baseline, s))"

text \<open>Step 2 (lines 81-85): the heater pulse and the settle wait.\<close>

definition fire_heater :: "hw_state \<Rightarrow> hw_state" where
  "fire_heater s =
     (let s = pinModeOutput PIN_HEATER s;
          s = digitalWrite PIN_HEATER True s;
          s = delay HEATER_POWER_MS s;
          s = digitalWrite PIN_HEATER False s
      in delay HEATER_SETTLE_MS s)"

text \<open>
  Step 3 (lines 88-105). \<open>track_peaks\<close> is the inner loop over the four channels
  (lines 97-103) for one sample \<open>t\<close> taken at \<open>elapsed_s\<close>. \<open>monitor\<close> is the
  \<^verbatim>\<open>while\<close> loop: it reads the clock for the loop test, reads the four thermistors,
  reads the clock again for \<open>elapsed_s\<close>, updates the peaks and waits. The loop ends
  when the clock says so; on a clock that never reaches the deadline it runs forever,
  which is the value \<open>None\<close>.
\<close>

definition track_peaks ::
  "real list \<times> real list \<Rightarrow> real list \<Rightarrow> real list \<Rightarrow> real \<Rightarrow> real list \<times> real list" where
  "track_peaks pk t baseline elapsed_s =
     fold (\<lambda>j (peak_dt, peak_time).
             let dt = t ! j - baseline ! j in
             if dt > peak_dt ! j then (peak_dt[j := dt], peak_time[j := elapsed_s])
             else (peak_dt, peak_time))
          [0..<4] pk"

partial_function (option) monitor ::
  "hw_input \<Rightarrow> 32 word \<Rightarrow> real list \<Rightarrow> (real list \<times> real list) \<Rightarrow> hw_state
     \<Rightarrow> ((real list \<times> real list) \<times> hw_state) option" where
  "monitor inp start_ms baseline pk s =
     (let (now, s1) = millis inp s in
      if now - start_ms < FLOW_MONITOR_MS then
        let (t, s2) = read_all_thermistors inp s1;
            (now2, s3) = millis inp s2;
            elapsed_s = real (unat (now2 - start_ms)) / 1000;
            pk = track_peaks pk t baseline elapsed_s
        in monitor inp start_ms baseline pk (delay FLOW_SAMPLE_MS s3)
      else Some (pk, s1))"

text \<open>Steps 1 to 3 together: everything up to the end of the monitoring loop.\<close>

definition measure_peaks ::
  "hw_input \<Rightarrow> hw_state \<Rightarrow> ((real list \<times> real list) \<times> hw_state) option" where
  "measure_peaks inp s =
     (let (baseline, s) = acquire_baseline inp s;
          s = fire_heater s;
          (start_ms, s) = millis inp s
      in monitor inp start_ms baseline ([0, 0, 0, 0], [0, 0, 0, 0]) s)"

text \<open>Step 4 (lines 108-111): the forward scan with a strict comparison.\<close>

definition dominant :: "real list \<Rightarrow> nat" where
  "dominant peak_dt =
     fold (\<lambda>j max_idx. if peak_dt ! j > peak_dt ! max_idx then j else max_idx) [1..<4] 0"

text \<open>
  \<^verbatim>\<open>atan2f\<close> is the C library's: the angle of the point \<open>(x, y)\<close> in \<open>(-\<pi>, \<pi>]\<close>, and 0 at
  the origin.
\<close>

definition atan2f :: "real \<Rightarrow> real \<Rightarrow> real" where
  "atan2f y x =
     (if 0 < x then arctan (y / x)
      else if x < 0 then (if 0 \<le> y then arctan (y / x) + pi else arctan (y / x) - pi)
      else if 0 < y then pi / 2
      else if y < 0 then - (pi / 2)
      else 0)"

text \<open>
  Step 5a (lines 128-137): the weighted circular mean of the four bearings. The sines and
  cosines are exact here, so the bearing of S has sine 0; the float code takes \<^verbatim>\<open>sinf\<close> of
  the float nearest to \<open>\<pi>\<close>, a small negative number. That effect is the subject of
  \<open>flow_direction_f32\<close> further down.
\<close>

definition dirs :: "real list" where
  "dirs = [0, 90, 180, 270]"

definition sin_cos_sums :: "real list \<Rightarrow> real \<times> real" where
  "sin_cos_sums peak_dt =
     fold (\<lambda>j (sin_sum, cos_sum).
             let rad = dirs ! j * pi / 180;
                 weight = peak_dt ! j
             in (sin_sum + weight * sin rad, cos_sum + weight * cos rad))
          [0..<4] (0, 0)"

definition flow_direction :: "real list \<Rightarrow> real" where
  "flow_direction peak_dt =
     (let (sin_sum, cos_sum) = sin_cos_sums peak_dt;
          direction = atan2f sin_sum cos_sum * 180 / pi
      in if direction < 0 then direction + 360 else direction)"

text \<open>Step 5b (lines 141-146): the inverse-time velocity with its floor at half a second.\<close>

definition flow_velocity :: "real \<Rightarrow> real" where
  "flow_velocity t_peak =
     (if t_peak > 0.5 then FLOW_CAL_K / t_peak else FLOW_CAL_K / 0.5)"

text \<open>
  The copy loops of lines 119-122 and 151-154. \<open>result_init\<close> is the local
  \<^verbatim>\<open>result\<close> after line 68: C++ leaves every field but \<^verbatim>\<open>valid\<close> indeterminate, and both
  return paths assign all of them; the model puts zeros there.
\<close>

definition result_init :: FlowResult where
  "result_init =
     \<lparr>velocity_cm_day = 0, direction_deg = 0, peak_temps = [0, 0, 0, 0],
      peak_times = [0, 0, 0, 0], valid = False\<rparr>"

definition echo_peaks :: "real list \<Rightarrow> real list \<Rightarrow> FlowResult \<Rightarrow> FlowResult" where
  "echo_peaks peak_dt peak_time result =
     fold (\<lambda>j r. r\<lparr>peak_temps := (peak_temps r)[j := peak_dt ! j],
                     peak_times := (peak_times r)[j := peak_time ! j]\<rparr>)
          [0..<4] result"

text \<open>Lines 108-155: from the four peaks to the result.\<close>

definition flow_estimate :: "FlowResult \<Rightarrow> real list \<Rightarrow> real list \<Rightarrow> FlowResult" where
  "flow_estimate result peak_dt peak_time =
     (let max_idx = dominant peak_dt in
      if peak_dt ! max_idx < 0.05 then
        echo_peaks peak_dt peak_time
          (result\<lparr>velocity_cm_day := 0, direction_deg := - 1, valid := True\<rparr>)
      else
        let direction = flow_direction peak_dt;
            velocity = flow_velocity (peak_time ! max_idx)
        in echo_peaks peak_dt peak_time
             (result\<lparr>velocity_cm_day := velocity, direction_deg := direction, valid := True\<rparr>))"

definition run_heat_pulse :: "hw_input \<Rightarrow> hw_state \<Rightarrow> (FlowResult \<times> hw_state) option" where
  "run_heat_pulse inp s =
     (let result = result_init\<lparr>valid := False\<rparr> in
      case measure_peaks inp s of
        None \<Rightarrow> None
      | Some ((peak_dt, peak_time), s') \<Rightarrow> Some (flow_estimate result peak_dt peak_time, s'))"

text \<open>
  The clock reaches the monitoring deadline at the \<open>k\<close>-th loop test of a cycle started in
  state \<open>s\<close>: the cycle reads the clock once for \<^verbatim>\<open>start_ms\<close> and then twice per iteration.
\<close>

definition deadline_at :: "hw_input \<Rightarrow> hw_state \<Rightarrow> nat \<Rightarrow> bool" where
  "deadline_at inp s k \<longleftrightarrow>
     \<not> (millis_sample inp (clock_reads s + 1 + 2 * k) - millis_sample inp (clock_reads s)
          < FLOW_MONITOR_MS)"

subsection \<open>Auxiliary definitions for the proofs\<close>

text \<open>\<open>steinhart_of\<close> is the local \<^verbatim>\<open>steinhart\<close> after line 44.\<close>

definition steinhart_of :: "16 word \<Rightarrow> real" where
  "steinhart_of raw =
     ln (r_therm_of raw / THERM_NOMINAL_R) / THERM_B_COEFF + 1 / (THERM_NOMINAL_T + 273.15)"

text \<open>The loop invariant of the monitoring phase: two arrays of four, no negative peak.\<close>

definition peaks_ok :: "real list \<times> real list \<Rightarrow> bool" where
  "peaks_ok pk \<longleftrightarrow>
     length (fst pk) = 4 \<and> length (snd pk) = 4 \<and> (\<forall>j<4. 0 \<le> fst pk ! j)"




text \<open>
  Concrete input traces. The clock of all three advances 25 s between two reads, so the
  monitoring loop takes one sample, 50 s after \<^verbatim>\<open>start_ms\<close>, and the second loop test ends
  it. Raw count 0 converts to the sentinel and raw count 13200 (1.65 V) to 25 degrees.
  \<^item> \<open>quiet_input\<close>: every conversion returns count 0.
  \<^item> \<open>warm_input\<close>: count 13200 during the forty baseline conversions, then 13000
    (1.625 V, about 25.7 degrees) on the channels N and E and 13200 on S and W.
  \<^item> \<open>dropout_input\<close>: count 13200 during the baseline, then 0.
\<close>

definition s_init :: hw_state where
  "s_init = \<lparr>adc_reads = 0, clock_reads = 0, events = []\<rparr>"

definition fast_clock :: "nat \<Rightarrow> 32 word" where
  "fast_clock n = of_nat n * 25000"

definition quiet_input :: hw_input where
  "quiet_input = \<lparr>adc_sample = (\<lambda>n ch. 0), millis_sample = fast_clock\<rparr>"

definition warm_input :: hw_input where
  "warm_input =
     \<lparr>adc_sample = (\<lambda>n ch. if n < 40 then 13200 else if ch < 2 then 13000 else 13200),
      millis_sample = fast_clock\<rparr>"

definition dropout_input :: hw_input where
  "dropout_input =
     \<lparr>adc_sample = (\<lambda>n ch. if n < 40 then 13200 else 0), millis_sample = fast_clock\<rparr>"

text \<open>\<open>steady_input raw\<close>: every conversion returns the count \<open>raw\<close>.\<close>

definition steady_input :: "16 word \<Rightarrow> hw_input" where
  "steady_input raw = \<lparr>adc_sample = (\<lambda>n ch. raw), millis_sample = fast_clock\<rparr>"

text \<open>What one such cycle writes to the outside world, and the state it ends in.\<close>

definition cycle_events :: "hw_event list" where
  "cycle_events = replicate 10 (Delay 50) @
     [PinModeOutput 38, DigitalWrite 38 True, Delay 4000, DigitalWrite 38 False, Delay 500,
      Delay 100]"

definition s_final :: hw_state where
  "s_final = \<lparr>adc_reads = 44, clock_reads = 4, events = cycle_events\<rparr>"





definition stuck_input :: hw_input where
  "stuck_input = \<lparr>adc_sample = (\<lambda>n ch. 0), millis_sample = (\<lambda>n. 0)\<rparr>"

subsection \<open>Lines 128-137 with the target's sines and the float addition\<close>

text \<open>
  The direction is the one place where the result can hinge on single precision, so a
  second reading of lines 128-137 keeps two of its effects. \<open>sines ! j\<close> and
  \<open>cosines ! j\<close> stand for what \<^verbatim>\<open>sinf(rad)\<close> and \<^verbatim>\<open>cosf(rad)\<close> return on the target for the
  bearing of channel \<open>j\<close> (the C library is not part of the repository), and the addition
  \<^verbatim>\<open>direction += 360.0f\<close> of line 137 rounds to the nearest float. The sums, \<^verbatim>\<open>atan2f\<close> and
  the conversion to degrees stay exact.

  \<open>f32_round\<close> is rounding to the nearest number with a 24-bit significand: for
  \<open>2^e \<le> |x| < 2^(e+1)\<close> the floats are the multiples of \<open>2^(e-23)\<close>. Subnormals and overflow
  are left out, and a tie goes upwards rather than to the even neighbour; no tie occurs
  in what follows.

  \<open>f32_sines\<close> and \<open>f32_cosines\<close> are the values of \<^verbatim>\<open>sinf\<close> and \<^verbatim>\<open>cosf\<close> at the four floats
  \<^verbatim>\<open>(float)(dirs[j] * M_PI / 180.0f)\<close>, to seven digits. The float nearest to \<open>\<pi>\<close> is
  3.14159274, above \<open>\<pi>\<close> by 8.74e-8, hence the small negative sine of the bearing of S.
\<close>

definition f32_round :: "real \<Rightarrow> real" where
  "f32_round x =
     (if x = 0 then 0
      else let e = \<lfloor>log 2 \<bar>x\<bar>\<rfloor>;
               u = 2 powr (real_of_int e - 23)
           in real_of_int (round (x / u)) * u)"

definition wrap_direction_f32 :: "real \<Rightarrow> real" where
  "wrap_direction_f32 direction =
     (if direction < 0 then f32_round (direction + 360) else direction)"

definition sin_cos_sums_tab :: "real list \<Rightarrow> real list \<Rightarrow> real list \<Rightarrow> real \<times> real" where
  "sin_cos_sums_tab sines cosines peak_dt =
     fold (\<lambda>j (sin_sum, cos_sum).
             let weight = peak_dt ! j
             in (sin_sum + weight * sines ! j, cos_sum + weight * cosines ! j))
          [0..<4] (0, 0)"

definition flow_direction_f32 :: "real list \<Rightarrow> real list \<Rightarrow> real list \<Rightarrow> real" where
  "flow_direction_f32 sines cosines peak_dt =
     (let (sin_sum, cos_sum) = sin_cos_sums_tab sines cosines peak_dt;
          direction = atan2f sin_sum cos_sum * 180 / pi
      in wrap_direction_f32 direction)"

definition f32_sines :: "real list" where
  "f32_sines = [0, 1, - 8742278 / 10 ^ 14, - 1]"

definition f32_cosines :: "real list" where
  "f32_cosines = [1, - 4371139 / 10 ^ 14, - 1, 1192488 / 10 ^ 14]"

subsection \<open>The stagnation threshold in single precision\<close>

text \<open>
  The threshold of line 114 is the float constant \<^verbatim>\<open>0.05f\<close>, the float nearest to the
  decimal 0.05, and every peak rise the test sees is a float. \<open>is_f32 x\<close> says that \<open>x\<close>
  is a float (within the range \<open>f32_round\<close> describes) and \<open>STAGNANT_DT\<close> is \<^verbatim>\<open>0.05f\<close>.

  For one channel, in single precision: \<open>baseline_f32 ts\<close> is its baseline after lines
  71-78, the ten readings \<open>ts\<close> added up one by one and the sum divided by \<^verbatim>\<open>10.0f\<close>, every
  operation rounded; \<open>rise_f32 t b\<close> is \<^verbatim>\<open>dt\<close> of line 98; \<open>track_f32\<close> is the update of
  lines 98-102 on the pair of the channel's peak and its time.

  \<open>threshold_readings\<close> are ten baseline readings of one channel: 60.191375732421875,
  - 60.652313232421875 and eight times - 0.000762939453125. These are the floats that
  lines 33-45 produce for the raw counts 5228, 26274 and 20348 when each operation and
  \<^verbatim>\<open>logf\<close> round to the nearest float; count 20347 gives the float 0.0032958984375
  (\<open>27 / 2^13\<close>) in the same way. \<open>sentinel_readings\<close> are the ten readings of a channel
  that converts count 0, the sentinel each time.
\<close>

definition is_f32 :: "real \<Rightarrow> bool" where
  "is_f32 x \<longleftrightarrow> f32_round x = x"

definition STAGNANT_DT :: real where
  "STAGNANT_DT = f32_round 0.05"

definition baseline_f32 :: "real list \<Rightarrow> real" where
  "baseline_f32 ts = f32_round (fold (\<lambda>t acc. f32_round (acc + t)) ts 0 / 10)"

definition rise_f32 :: "real \<Rightarrow> real \<Rightarrow> real" where
  "rise_f32 t b = f32_round (t - b)"

definition track_f32 :: "real \<times> real \<Rightarrow> real \<Rightarrow> real \<Rightarrow> real \<Rightarrow> real \<times> real" where
  "track_f32 pk t b elapsed_s =
     (let dt = rise_f32 t b in if dt > fst pk then (dt, elapsed_s) else pk)"

definition threshold_readings :: "real list" where
  "threshold_readings =
     [1972351 / 2 ^ 15, - 1987455 / 2 ^ 15,
      - 25 / 2 ^ 15, - 25 / 2 ^ 15, - 25 / 2 ^ 15, - 25 / 2 ^ 15,
      - 25 / 2 ^ 15, - 25 / 2 ^ 15, - 25 / 2 ^ 15, - 25 / 2 ^ 15]"

definition sentinel_readings :: "real list" where
  "sentinel_readings = [- 999, - 999, - 999, - 999, - 999, - 999, - 999, - 999, - 999, - 999]"

section \<open>Basic facts\<close>

subsection \<open>Index ranges and arrays of four\<close>

lemma upt_0_4: "[0..<4] = [0, 1, 2, 3]"
  by (simp add: upt_rec)

lemma upt_1_4: "[1..<4] = [1, 2, 3]"
  by (simp add: upt_rec)

lemma upt_0_10: "[0..<10] = [0, 1, 2, 3, 4, 5, 6, 7, 8, 9]"
  by (simp add: upt_rec)

lemma length4_cases: "length xs = 4 \<Longrightarrow> \<exists>a b c d. xs = [a, b, c, d]"
  by (auto simp: length_Suc_conv numeral_eq_Suc)

lemma less4_cases: "j < 4 \<longleftrightarrow> j = 0 \<or> j = 1 \<or> j = 2 \<or> j = (3::nat)"
  by auto

subsection \<open>The thermistor conversion\<close>

lemma voltage_of_eq: "voltage_of raw = real_of_int (sint raw) / 8000"
  by (simp add: voltage_of_def del: of_int_sint)

lemma convert_raw_eq:
  "convert_raw raw = (if r_therm_of raw \<le> 0 then - 999 else 1 / steinhart_of raw - 273.15)"
  by (simp add: convert_raw_def steinhart_of_def Let_def)

lemma r_therm_pos_iff: "0 < r_therm_of raw \<longleftrightarrow> 0 < sint raw \<and> sint raw < 26400"
proof -
  have a: "0 < voltage_of raw \<longleftrightarrow> 0 < sint raw"
    by (simp add: voltage_of_eq del: of_int_sint)
  have b: "voltage_of raw < 3.3 \<longleftrightarrow> sint raw < 26400"
    by (simp add: voltage_of_eq del: of_int_sint)
  have "0 < r_therm_of raw \<longleftrightarrow> 0 < voltage_of raw \<and> voltage_of raw < 3.3"
    by (auto simp: r_therm_of_def THERM_SERIES_R_def zero_less_divide_iff zero_less_mult_iff)
  then show ?thesis using a b by simp
qed

lemma divider_mono:
  fixes u v c k :: real
  assumes "0 \<le> u" "u < v" "v < c" "0 < k"
  shows "k * u / (c - u) < k * v / (c - v)"
proof -
  have "u / (c - u) < v / (c - v)"
    using assms by (intro frac_less) simp_all
  then have "k * (u / (c - u)) < k * (v / (c - v))"
    using assms(4) by (rule mult_strict_left_mono)
  then show ?thesis by simp
qed

lemma r_therm_mono:
  assumes "0 < sint a" "sint a < sint b" "sint b < 26400"
  shows "r_therm_of a < r_therm_of b"
proof -
  have va: "0 \<le> voltage_of a"
    using assms(1) by (simp add: voltage_of_eq del: of_int_sint)
  have vab: "voltage_of a < voltage_of b"
    using assms(2) by (simp add: voltage_of_eq del: of_int_sint)
  have vb: "voltage_of b < 3.3"
    using assms(3) by (simp add: voltage_of_eq del: of_int_sint)
  show ?thesis
    unfolding r_therm_of_def THERM_SERIES_R_def
    by (rule divider_mono[OF va vab vb]) simp
qed

text \<open>
  The smallest positive resistance an ADC count can give is that of count 1; its
  logarithm stays above \<open>- 13\<close>, which keeps \<^verbatim>\<open>steinhart\<close> positive.
\<close>

lemma exp_13_lower: "(26400::real) < exp 13"
proof -
  have "(3/2::real) \<le> exp (1/2)"
    using exp_ge_add_one_self[of "1/2::real"] by simp
  then have "(3/2::real) ^ 26 \<le> exp (1/2) ^ 26"
    by (rule power_mono) simp
  also have "exp (1/2::real) ^ 26 = exp 13"
    using exp_of_nat_mult[of 26 "1/2::real"] by simp
  finally show ?thesis by (simp add: power_divide)
qed

lemma ratio_lower:
  assumes "0 < sint raw" "sint raw < 26400"
  shows "1 / 26400 < r_therm_of raw / THERM_NOMINAL_R"
proof -
  define v where "v = voltage_of raw"
  define d where "d = 3.3 - v"
  have v1: "1 / 8000 \<le> v"
    using assms(1) by (simp add: v_def voltage_of_eq del: of_int_sint)
  have v2: "v < 3.3"
    using assms(2) by (simp add: v_def voltage_of_eq del: of_int_sint)
  have d: "0 < d" "d < 3.3" using v1 v2 by (simp_all add: d_def)
  have "1 / 26400 = (1 / 8000) / (3.3::real)" by simp
  also have "\<dots> < v / d"
    using v1 d by (intro frac_less2) simp_all
  finally have "1 / 26400 < v / d" .
  moreover have "r_therm_of raw = 10000 * (v / d)"
    by (simp add: r_therm_of_def THERM_SERIES_R_def v_def d_def)
  ultimately show ?thesis by (simp add: THERM_NOMINAL_R_def)
qed

lemma steinhart_pos:
  assumes "0 < sint raw" "sint raw < 26400"
  shows "0 < steinhart_of raw"
proof -
  define x where "x = r_therm_of raw / THERM_NOMINAL_R"
  have x: "1 / 26400 < x" unfolding x_def by (rule ratio_lower[OF assms])
  have xpos: "0 < x" by (rule less_trans[OF _ x]) simp
  have "exp (- 13) < (1 / 26400 :: real)"
    using exp_13_lower by (simp add: exp_minus field_simps)
  then have "exp (- 13) < x" using x by (rule less_trans)
  then have "exp (- 13) < exp (ln x)" using xpos by simp
  then have l: "- 13 < ln x" by (simp only: exp_less_cancel_iff)
  have "0 < (- 13) / 3950 + 1 / (25 + 273.15 :: real)" by simp
  also have "\<dots> < ln x / 3950 + 1 / (25 + 273.15)"
    using l by (simp add: divide_strict_right_mono)
  finally show ?thesis
    by (simp add: steinhart_of_def THERM_B_COEFF_def THERM_NOMINAL_T_def x_def)
qed

lemma convert_raw_decreasing:
  assumes "0 < sint a" "sint a < sint b" "sint b < 26400"
  shows "convert_raw b < convert_raw a"
proof -
  have pa: "0 < r_therm_of a" using assms by (simp add: r_therm_pos_iff)
  have pb: "0 < r_therm_of b" using assms by (simp add: r_therm_pos_iff)
  have "r_therm_of a < r_therm_of b" by (rule r_therm_mono[OF assms])
  then have "ln (r_therm_of a / THERM_NOMINAL_R) < ln (r_therm_of b / THERM_NOMINAL_R)"
    using pa pb by (simp add: THERM_NOMINAL_R_def)
  then have lt: "steinhart_of a < steinhart_of b"
    by (simp add: steinhart_of_def THERM_B_COEFF_def divide_strict_right_mono)
  have sa: "0 < steinhart_of a" using assms by (intro steinhart_pos) auto
  have "1 / steinhart_of b < 1 / steinhart_of a"
    using lt sa by (simp add: frac_less2)
  then show ?thesis using pa pb by (simp add: convert_raw_eq)
qed

lemma convert_raw_sentinel_iff: "convert_raw raw = - 999 \<longleftrightarrow> r_therm_of raw \<le> 0"
proof (cases "r_therm_of raw \<le> 0")
  case True
  then show ?thesis by (simp add: convert_raw_eq)
next
  case False
  then have "0 < sint raw \<and> sint raw < 26400" using r_therm_pos_iff[of raw] by simp
  then have "0 < steinhart_of raw" by (simp add: steinhart_pos)
  then have "0 < 1 / steinhart_of raw" by simp
  then have "- (273.15::real) < 1 / steinhart_of raw - 273.15" by simp
  moreover have "- 999 < - (273.15::real)" by simp
  ultimately have "- 999 < 1 / steinhart_of raw - 273.15" by (rule less_trans[rotated])
  then show ?thesis using False by (auto simp: convert_raw_eq)
qed

lemma convert_raw_0: "convert_raw 0 = - 999"
  by (simp add: convert_raw_def r_therm_of_def voltage_of_def)

lemma convert_raw_13200: "convert_raw 13200 = 25"
  by (simp add: convert_raw_def r_therm_of_def voltage_of_def THERM_SERIES_R_def
      THERM_NOMINAL_R_def THERM_NOMINAL_T_def THERM_B_COEFF_def Let_def)

text \<open>Count 13000 converts to at least 25.05 degrees (in fact to about 25.7).\<close>

lemma r_therm_13000: "r_therm_of 13000 / THERM_NOMINAL_R = 65 / 67"
  by (simp add: r_therm_of_def voltage_of_def THERM_SERIES_R_def THERM_NOMINAL_R_def)

lemma convert_raw_13000_lower: "25.05 \<le> convert_raw 13000"
proof -
  have pos: "0 < steinhart_of 13000" by (rule steinhart_pos) simp_all
  have "ln (65 / 67 :: real) \<le> 65 / 67 - 1" by (rule ln_le_minus_one) simp
  then have "ln (65 / 67 :: real) / 3950 \<le> (65 / 67 - 1) / 3950"
    by (rule divide_right_mono) simp
  then have "steinhart_of 13000 \<le> (65 / 67 - 1) / 3950 + 1 / (25 + 273.15)"
    by (simp add: steinhart_of_def r_therm_13000 THERM_B_COEFF_def THERM_NOMINAL_T_def)
  also have "\<dots> \<le> 1 / 298.2" by simp
  finally have "steinhart_of 13000 \<le> 1 / 298.2" .
  then have "1 / (1 / 298.2) \<le> 1 / steinhart_of 13000"
    using pos by (intro divide_left_mono) simp_all
  then have "298.2 \<le> 1 / steinhart_of 13000" by simp
  moreover have "0 < r_therm_of 13000" by (simp add: r_therm_pos_iff)
  ultimately show ?thesis by (simp add: convert_raw_eq)
qed

subsection \<open>The monitoring loop\<close>

lemma track_peaks_ok:
  assumes "peaks_ok pk"
  shows "peaks_ok (track_peaks pk t baseline elapsed_s)"
  unfolding track_peaks_def
proof (rule fold_invariant[where Q = "\<lambda>j. j < 4" and P = peaks_ok])
  show "peaks_ok pk" by (rule assms)
next
  fix x assume "x \<in> set [0..<4]"
  then show "x < 4" by simp
next
  fix j :: nat and pk :: "real list \<times> real list"
  assume j: "j < 4" and ok: "peaks_ok pk"
  obtain pd pt where pk: "pk = (pd, pt)" by (cases pk)
  show "peaks_ok (case pk of (peak_dt, peak_time) \<Rightarrow>
          let dt = t ! j - baseline ! j in
          if peak_dt ! j < dt then (peak_dt[j := dt], peak_time[j := elapsed_s])
          else (peak_dt, peak_time))"
    using ok j unfolding pk peaks_ok_def
    by (auto simp: Let_def nth_list_update)
qed

lemma peaks_ok_init: "peaks_ok ([0, 0, 0, 0], [0, 0, 0, 0])"
  by (simp add: peaks_ok_def less4_cases nth_Cons')

text \<open>Whatever the loop returns satisfies the invariant (fixpoint induction on the loop).\<close>

lemma monitor_ok_aux:
  assumes "monitor inp0 start0 baseline0 pk0 s0 = Some y0"
  shows "peaks_ok pk0 \<longrightarrow> peaks_ok (fst y0)"
proof (rule monitor.raw_induct[where
      P = "\<lambda>inp start_ms baseline pk s y. peaks_ok pk \<longrightarrow> peaks_ok (fst y)",
      OF _ assms], goal_cases)
  case (1 mon inp start_ms baseline pk s y)
  let ?s1 = "snd (millis inp s)"
  let ?t = "fst (read_all_thermistors inp ?s1)"
  let ?s2 = "snd (read_all_thermistors inp ?s1)"
  let ?e = "real (unat (fst (millis inp ?s2) - start_ms)) / 1000"
  let ?s4 = "delay FLOW_SAMPLE_MS (snd (millis inp ?s2))"
  show ?case
  proof
    assume ok: "peaks_ok pk"
    show "peaks_ok (fst y)"
    proof (cases "fst (millis inp s) - start_ms < FLOW_MONITOR_MS")
      case True
      with 1(2) have "mon inp start_ms baseline (track_peaks pk ?t baseline ?e) ?s4 = Some y"
        by (simp add: split_def Let_def)
      from 1(1)[OF this] track_peaks_ok[OF ok] show ?thesis by blast
    next
      case False
      with 1(2) have "y = (pk, ?s1)" by (simp add: split_def Let_def)
      with ok show ?thesis by simp
    qed
  qed
qed

lemma monitor_ok:
  assumes "monitor inp start_ms baseline pk s = Some y" "peaks_ok pk"
  shows "peaks_ok (fst y)"
  using monitor_ok_aux[OF assms(1)] assms(2) by blast

lemma clock_read_all [simp]:
  "clock_reads (snd (read_all_thermistors inp s)) = clock_reads s"
  by (simp add: read_all_thermistors_def thermistor_temp_def readADC_SingleEnded_def
      split_def Let_def)

lemma clock_delay [simp]: "clock_reads (delay n s) = clock_reads s"
  by (simp add: delay_def)

lemma clock_millis [simp]: "clock_reads (snd (millis inp s)) = Suc (clock_reads s)"
  by (simp add: millis_def)

lemma fst_millis [simp]: "fst (millis inp s) = millis_sample inp (clock_reads s)"
  by (simp add: millis_def)

text \<open>
  The loop returns as soon as one of its tests finds the deadline reached: induction on
  the number of the test, the loop state generalised.
\<close>

lemma monitor_terminates:
  assumes "\<not> (millis_sample inp (clock_reads s + 2 * k) - start_ms < FLOW_MONITOR_MS)"
  shows "\<exists>y. monitor inp start_ms baseline pk s = Some y"
  using assms
proof (induction k arbitrary: pk s)
  case 0
  then show ?case by (subst monitor.simps) (simp add: split_def Let_def)
next
  case (Suc k)
  show ?case
  proof (cases "millis_sample inp (clock_reads s) - start_ms < FLOW_MONITOR_MS")
    case False
    then show ?thesis by (subst monitor.simps) (simp add: split_def Let_def)
  next
    case True
    let ?s1 = "snd (millis inp s)"
    let ?s2 = "snd (read_all_thermistors inp ?s1)"
    let ?s3 = "snd (millis inp ?s2)"
    let ?s4 = "delay FLOW_SAMPLE_MS ?s3"
    have "clock_reads ?s4 + 2 * k = clock_reads s + 2 * Suc k" by simp
    with Suc.prems
    have "\<not> (millis_sample inp (clock_reads ?s4 + 2 * k) - start_ms < FLOW_MONITOR_MS)"
      by simp
    from Suc.IH[OF this] show ?thesis
      using True by (subst monitor.simps) (simp add: split_def Let_def)
  qed
qed

text \<open>
  Conversely, on a clock that stays within the window at every read the loop never
  returns, and neither does the cycle.
\<close>

lemma monitor_never_returns_aux:
  assumes "monitor inp0 start0 baseline0 pk0 s0 = Some y0"
  shows "\<not> (\<forall>n. millis_sample inp0 n - start0 < FLOW_MONITOR_MS)"
proof (rule monitor.raw_induct[where
      P = "\<lambda>inp start_ms baseline pk s y.
             \<not> (\<forall>n. millis_sample inp n - start_ms < FLOW_MONITOR_MS)",
      OF _ assms], goal_cases)
  case (1 mon inp start_ms baseline pk s y)
  show ?case
  proof
    assume stuck: "\<forall>n. millis_sample inp n - start_ms < FLOW_MONITOR_MS"
    then have "fst (millis inp s) - start_ms < FLOW_MONITOR_MS" by simp
    with 1(2) obtain pk' s' where "mon inp start_ms baseline pk' s' = Some y"
      by (auto simp: split_def Let_def)
    from 1(1)[OF this] stuck show False by blast
  qed
qed

lemma monitor_stuck_clock:
  assumes "\<forall>n. millis_sample inp n - start_ms < FLOW_MONITOR_MS"
  shows "monitor inp start_ms baseline pk s = None"
  using monitor_never_returns_aux[of inp start_ms baseline pk s] assms
  by (cases "monitor inp start_ms baseline pk s") auto

lemma clock_baseline_pass [simp]:
  "clock_reads (snd (baseline_pass inp bs)) = clock_reads (snd bs)"
  by (simp add: baseline_pass_def split_def Let_def)

lemma clock_acquire_baseline [simp]:
  "clock_reads (snd (acquire_baseline inp s)) = clock_reads s"
proof -
  have "clock_reads (snd (fold (\<lambda>i. baseline_pass inp) xs bs)) = clock_reads (snd bs)"
    for xs :: "nat list" and bs
    by (induction xs arbitrary: bs) simp_all
  then show ?thesis by (simp add: acquire_baseline_def split_def Let_def)
qed

lemma clock_fire_heater [simp]: "clock_reads (fire_heater s) = clock_reads s"
  by (simp add: fire_heater_def pinModeOutput_def digitalWrite_def delay_def Let_def)

lemma measure_peaks_ok:
  assumes "measure_peaks inp s = Some (pk, s')"
  shows "peaks_ok pk"
proof -
  from assms
  have "monitor inp (fst (millis inp (fire_heater (snd (acquire_baseline inp s)))))
      (fst (acquire_baseline inp s)) ([0, 0, 0, 0], [0, 0, 0, 0])
      (snd (millis inp (fire_heater (snd (acquire_baseline inp s))))) = Some (pk, s')"
    by (simp add: measure_peaks_def split_def Let_def)
  from monitor_ok[OF this peaks_ok_init] show ?thesis by simp
qed

lemma measure_peaks_terminates:
  assumes "deadline_at inp s k"
  shows "\<exists>y. measure_peaks inp s = Some y"
proof -
  let ?s2 = "fire_heater (snd (acquire_baseline inp s))"
  let ?s3 = "snd (millis inp ?s2)"
  have "clock_reads ?s3 + 2 * k = clock_reads s + 1 + 2 * k" by simp
  with assms
  have "\<not> (millis_sample inp (clock_reads ?s3 + 2 * k) - millis_sample inp (clock_reads s)
            < FLOW_MONITOR_MS)"
    by (simp add: deadline_at_def)
  from monitor_terminates[OF this]
  show ?thesis by (simp add: measure_peaks_def split_def Let_def)
qed

subsection \<open>The flow estimator\<close>

lemma dominant4:
  "dominant [a, b, c, d] =
     (let m = (if b > a then 1 else 0);
          m = (if c > [a, b, c, d] ! m then 2 else m)
      in if d > [a, b, c, d] ! m then 3 else m)"
  unfolding dominant_def upt_1_4 by (simp add: Let_def)

text \<open>With exact sines and cosines of the four bearings the sums are E - W and N - S.\<close>

lemma sin_cos_sums_eq:
  "sin_cos_sums pd = (pd ! 1 - pd ! 3, pd ! 0 - pd ! 2)"
proof -
  have r1: "(90::real) * pi / 180 = pi / 2" by simp
  have r2: "(180::real) * pi / 180 = pi" by simp
  have r3: "(270::real) * pi / 180 = 3 / 2 * pi" by simp
  show ?thesis
    unfolding sin_cos_sums_def upt_0_4 dirs_def
    by (simp add: Let_def r1 r2 r3 del: times_divide_eq_left times_divide_eq_right)
qed

lemma atan2f_lower: "- pi < atan2f y x"
proof -
  have b: "- (pi / 2) < arctan (y / x)" "arctan (y / x) < pi / 2"
    by (rule arctan_lbound, rule arctan_ubound)
  consider "0 < x" | "x < 0" "0 \<le> y" | "x < 0" "y < 0" | "x = 0"
    by linarith
  then show ?thesis
  proof cases
    case 1
    then show ?thesis using b by (simp add: atan2f_def)
  next
    case 2
    then show ?thesis using b by (simp add: atan2f_def)
  next
    case 3
    then have "0 < y / x" by (simp add: divide_neg_neg)
    then have "0 < arctan (y / x)" using zero_less_arctan_iff by blast
    then show ?thesis using 3 by (simp add: atan2f_def)
  next
    case 4
    have "- pi < pi / 2" "- pi < - (pi / 2)" "- pi < 0"
      using pi_gt_zero by linarith+
    with 4 show ?thesis
      unfolding atan2f_def
      by (cases "0 < y"; cases "y < 0";
          simp only: if_True if_False less_irrefl simp_thms; linarith)
  qed
qed

text \<open>The direction of a non-stagnant cycle is never negative, so never the value - 1.\<close>

lemma flow_direction_nonneg: "0 \<le> flow_direction pd"
proof -
  obtain ss cs where sc: "sin_cos_sums pd = (ss, cs)" by (cases "sin_cos_sums pd")
  define d where "d = atan2f ss cs * 180 / pi"
  have fd: "flow_direction pd = (if d < 0 then d + 360 else d)"
    by (simp add: flow_direction_def sc d_def Let_def)
  have "- pi < atan2f ss cs" by (rule atan2f_lower)
  then have "- 180 < d"
    using pi_gt_zero by (simp add: d_def pos_less_divide_eq)
  then show ?thesis unfolding fd by auto
qed

lemma echo_peaks_scalars [simp]:
  "velocity_cm_day (echo_peaks pd pt r) = velocity_cm_day r"
  "direction_deg (echo_peaks pd pt r) = direction_deg r"
  "valid (echo_peaks pd pt r) = valid r"
  unfolding echo_peaks_def upt_0_4 by simp_all

lemma echo_peaks_arrays:
  assumes "length (peak_temps r) = 4" "length (peak_times r) = 4"
    "length pd = 4" "length pt = 4"
  shows "peak_temps (echo_peaks pd pt r) = pd" "peak_times (echo_peaks pd pt r) = pt"
proof -
  obtain a b c d where 1: "pd = [a, b, c, d]"
    using length4_cases[OF assms(3)] by blast
  obtain e f g h where 2: "pt = [e, f, g, h]"
    using length4_cases[OF assms(4)] by blast
  obtain a' b' c' d' where 3: "peak_temps r = [a', b', c', d']"
    using length4_cases[OF assms(1)] by blast
  obtain e' f' g' h' where 4: "peak_times r = [e', f', g', h']"
    using length4_cases[OF assms(2)] by blast
  show "peak_temps (echo_peaks pd pt r) = pd" "peak_times (echo_peaks pd pt r) = pt"
    unfolding echo_peaks_def upt_0_4 by (simp_all add: 1 2 3 4)
qed

lemma flow_estimate_valid [simp]: "valid (flow_estimate r pd pt)"
  by (simp add: flow_estimate_def Let_def)

lemma flow_estimate_stagnant:
  assumes "pd ! dominant pd < 0.05"
  shows "velocity_cm_day (flow_estimate r pd pt) = 0"
    "direction_deg (flow_estimate r pd pt) = - 1"
  using assms by (simp_all add: flow_estimate_def Let_def)

lemma flow_estimate_flowing:
  assumes "\<not> pd ! dominant pd < 0.05"
  shows "velocity_cm_day (flow_estimate r pd pt) = flow_velocity (pt ! dominant pd)"
    "direction_deg (flow_estimate r pd pt) = flow_direction pd"
  using assms by (simp_all add: flow_estimate_def Let_def)

lemma flow_estimate_arrays:
  assumes "length pd = 4" "length pt = 4"
  shows "peak_temps (flow_estimate (result_init\<lparr>valid := False\<rparr>) pd pt) = pd"
    "peak_times (flow_estimate (result_init\<lparr>valid := False\<rparr>) pd pt) = pt"
  using assms by (simp_all add: flow_estimate_def Let_def echo_peaks_arrays result_init_def)

lemma run_heat_pulse_eq:
  assumes "measure_peaks inp s = Some ((pd, pt), s')"
  shows "run_heat_pulse inp s =
    Some (flow_estimate (result_init\<lparr>valid := False\<rparr>) pd pt, s')"
  using assms by (simp add: run_heat_pulse_def)

lemma run_heat_pulse_SomeD:
  assumes "run_heat_pulse inp s = Some (r, s')"
  shows "\<exists>pd pt. measure_peaks inp s = Some ((pd, pt), s') \<and>
    r = flow_estimate (result_init\<lparr>valid := False\<rparr>) pd pt"
  using assms by (auto simp: run_heat_pulse_def split: option.splits)

lemma run_heat_pulse_stuck_clock:
  assumes "\<forall>n. millis_sample inp n = c"
  shows "run_heat_pulse inp s = None"
proof -
  have "\<forall>n. millis_sample inp n - c < FLOW_MONITOR_MS"
    using assms by (simp add: FLOW_MONITOR_MS_def)
  then have "monitor inp c baseline pk s' = None" for baseline pk s'
    by (rule monitor_stuck_clock)
  then show ?thesis
    using assms by (simp add: run_heat_pulse_def measure_peaks_def split_def Let_def millis_def)
qed

subsection \<open>Rounding the sum of line 137\<close>

text \<open>Between 256 and 512 the floats are the multiples of \<open>2^-15\<close>.\<close>

lemma f32_round_256_512:
  assumes "256 \<le> x" "x < 512"
  shows "f32_round x = real_of_int (round (x * 2 ^ 15)) / 2 ^ 15"
proof -
  have pos: "0 < x" and nz: "x \<noteq> 0" and ab: "\<bar>x\<bar> = x" using assms by simp_all
  have "(2::real) powr (real_of_int 8) \<le> x \<and> x < 2 powr (real_of_int (8 + 1))"
    using assms by simp
  then have e: "\<lfloor>log 2 x\<rfloor> = 8"
    using pos floor_log_eq_powr_iff[of x 2 8] by simp
  have "(2::real) powr (- 15) = inverse (2 powr 15)" by (rule powr_minus)
  then have u: "(2::real) powr (- 15) = 1 / 2 ^ 15" by (simp add: inverse_eq_divide)
  have "f32_round x = real_of_int (round (x / 2 powr (- 15))) * 2 powr (- 15)"
    by (simp add: f32_round_def nz ab e Let_def)
  also have "\<dots> = real_of_int (round (x * 2 ^ 15)) / 2 ^ 15"
    unfolding u by simp
  finally show ?thesis .
qed

text \<open>A direction less than half a float spacing below zero is lifted to exactly 360.\<close>

lemma wrap_rounds_to_360:
  assumes "- (1 / 2 ^ 16) < d" "d < 0"
  shows "wrap_direction_f32 d = 360"
proof -
  let ?x = "d + 360"
  have r: "256 \<le> ?x" "?x < 512" using assms by simp_all
  have "\<bar>?x * 2 ^ 15 - of_int 11796480\<bar> < 1 / 2"
    using assms by (simp add: abs_if field_simps)
  then have "round (?x * 2 ^ 15) = 11796480" by (rule round_unique')
  then have "f32_round ?x = 360" by (simp add: f32_round_256_512[OF r])
  then show ?thesis using assms(2) by (simp add: wrap_direction_f32_def)
qed

lemma arctan_ge_self_neg:
  assumes "t \<le> 0"
  shows "t \<le> arctan t"
proof -
  have "t - arctan t \<le> 0 - arctan 0"
  proof (rule DERIV_nonneg_imp_nondecreasing[OF assms])
    fix x :: real
    have "0 < 1 + x\<^sup>2" by (simp add: add_pos_nonneg)
    then have "inverse (1 + x\<^sup>2) \<le> 1" by (simp add: field_simps)
    moreover have "DERIV (\<lambda>x. x - arctan x) x :> 1 - inverse (1 + x\<^sup>2)"
      by (intro derivative_intros DERIV_arctan)
    ultimately show "\<exists>y. DERIV (\<lambda>x. x - arctan x) x :> y \<and> 0 \<le> y"
      by (intro exI[of _ "1 - inverse (1 + x\<^sup>2)"]) simp
  qed
  then show ?thesis by simp
qed

lemma small_angle_degrees:
  assumes "- (1 / 10 ^ 7) < t" "t < 0"
  shows "- (1 / 2 ^ 16) < arctan t * 180 / pi \<and> arctan t * 180 / pi < 0"
proof -
  have neg: "arctan t < 0" using assms(2) by (simp add: arctan_less_zero_iff)
  have "t \<le> arctan t" using assms(2) by (intro arctan_ge_self_neg) simp
  then have lo: "- (1 / 10 ^ 7) < arctan t" using assms(1) by simp
  have p: "2 \<le> pi" by (rule pi_ge_two)
  have "- (1 / 2 ^ 16) * pi \<le> - (1 / 2 ^ 16) * 2" using p by simp
  also have "\<dots> < - (1 / 10 ^ 7) * 180" by simp
  also have "\<dots> < arctan t * 180" using lo by simp
  finally have "- (1 / 2 ^ 16) * pi < arctan t * 180" .
  then have "- (1 / 2 ^ 16) < arctan t * 180 / pi"
    using pi_gt_zero by (simp add: pos_less_divide_eq)
  moreover have "arctan t * 180 / pi < 0"
    using neg pi_gt_zero by (simp add: divide_neg_pos)
  ultimately show ?thesis by simp
qed

subsection \<open>Three cycles evaluated\<close>

lemmas hw_defs = read_all_thermistors_def thermistor_temp_def readADC_SingleEnded_def
  delay_def millis_def pinModeOutput_def digitalWrite_def baseline_pass_def
  CH_THERM_N_def CH_THERM_E_def CH_THERM_S_def CH_THERM_W_def

lemmas cycle_defs = FLOW_MONITOR_MS_def fast_clock_def s_final_def cycle_events_def
  PIN_HEATER_def HEATER_POWER_MS_def HEATER_SETTLE_MS_def FLOW_SAMPLE_MS_def

lemma quiet_baseline:
  "acquire_baseline quiet_input s_init =
     ([- 999, - 999, - 999, - 999],
      \<lparr>adc_reads = 40, clock_reads = 0, events = replicate 10 (Delay 50)\<rparr>)"
  unfolding acquire_baseline_def upt_0_10 upt_0_4
  by (simp add: hw_defs quiet_input_def s_init_def convert_raw_0 Let_def numeral_eq_Suc)

lemma quiet_measure:
  "measure_peaks quiet_input s_init = Some (([0, 0, 0, 0], [0, 0, 0, 0]), s_final)"
  unfolding measure_peaks_def quiet_baseline
  apply (simp add: fire_heater_def hw_defs Let_def quiet_input_def fast_clock_def)
  apply (subst monitor.simps)
  apply (simp add: hw_defs Let_def FLOW_MONITOR_MS_def fast_clock_def convert_raw_0
      track_peaks_def upt_0_4)
  apply (subst monitor.simps)
  apply (simp add: hw_defs Let_def cycle_defs)
  done

lemma warm_baseline:
  "acquire_baseline warm_input s_init =
     ([25, 25, 25, 25],
      \<lparr>adc_reads = 40, clock_reads = 0, events = replicate 10 (Delay 50)\<rparr>)"
  unfolding acquire_baseline_def upt_0_10 upt_0_4
  by (simp add: hw_defs warm_input_def s_init_def convert_raw_13200 Let_def numeral_eq_Suc)

lemma warm_measure:
  "measure_peaks warm_input s_init =
     Some (([convert_raw 13000 - 25, convert_raw 13000 - 25, 0, 0], [50, 50, 0, 0]), s_final)"
proof -
  have gt: "25 < convert_raw 13000" using convert_raw_13000_lower by simp
  show ?thesis
    unfolding measure_peaks_def warm_baseline
    apply (simp add: fire_heater_def hw_defs Let_def warm_input_def fast_clock_def)
    apply (subst monitor.simps)
    apply (simp add: hw_defs Let_def FLOW_MONITOR_MS_def fast_clock_def gt
        convert_raw_13200 track_peaks_def upt_0_4)
    apply (subst monitor.simps)
    apply (simp add: hw_defs Let_def cycle_defs)
    done
qed

lemma warm_dominant:
  "dominant [convert_raw 13000 - 25, convert_raw 13000 - 25, 0, 0] = 0"
  using convert_raw_13000_lower by (simp add: dominant4)

lemma warm_result:
  "run_heat_pulse warm_input s_init =
     Some (\<lparr>velocity_cm_day = 18, direction_deg = 45,
            peak_temps = [convert_raw 13000 - 25, convert_raw 13000 - 25, 0, 0],
            peak_times = [50, 50, 0, 0], valid = True\<rparr>, s_final)"
proof -
  have gt: "0.05 \<le> convert_raw 13000 - 25" using convert_raw_13000_lower by simp
  then have gt0: "0 < convert_raw 13000 - 25" by simp
  have dir: "flow_direction [convert_raw 13000 - 25, convert_raw 13000 - 25, 0, 0] = 45"
    using gt0 by (simp add: flow_direction_def sin_cos_sums_eq atan2f_def arctan_one Let_def)
  show ?thesis
    using gt
    by (simp add: run_heat_pulse_def warm_measure flow_estimate_def warm_dominant dir
        flow_velocity_def FLOW_CAL_K_def echo_peaks_def upt_0_4 result_init_def Let_def)
qed

lemma dropout_baseline:
  "acquire_baseline dropout_input s_init =
     ([25, 25, 25, 25],
      \<lparr>adc_reads = 40, clock_reads = 0, events = replicate 10 (Delay 50)\<rparr>)"
  unfolding acquire_baseline_def upt_0_10 upt_0_4
  by (simp add: hw_defs dropout_input_def s_init_def convert_raw_13200 Let_def numeral_eq_Suc)

lemma dropout_measure:
  "measure_peaks dropout_input s_init = Some (([0, 0, 0, 0], [0, 0, 0, 0]), s_final)"
  unfolding measure_peaks_def dropout_baseline
  apply (simp add: fire_heater_def hw_defs Let_def dropout_input_def fast_clock_def)
  apply (subst monitor.simps)
  apply (simp add: hw_defs Let_def FLOW_MONITOR_MS_def fast_clock_def convert_raw_0
      convert_raw_13200 track_peaks_def upt_0_4)
  apply (subst monitor.simps)
  apply (simp add: hw_defs Let_def cycle_defs)
  done

subsection \<open>The monitoring loop unrolled\<close>








subsection \<open>The cycle with five samples evaluated\<close>














subsection \<open>Floats around the stagnation threshold\<close>

text \<open>Rounding within one binade, and between \<open>2^-5\<close> and \<open>2^-4\<close> in particular.\<close>

lemma f32_round_binade_abs:
  assumes "2 powr real_of_int k \<le> \<bar>x\<bar>" "\<bar>x\<bar> < 2 powr real_of_int (k + 1)"
  shows "f32_round x
     = real_of_int (round (x / 2 powr (real_of_int k - 23))) * 2 powr (real_of_int k - 23)"
proof -
  have pos: "0 < \<bar>x\<bar>" using assms(1) by (rule less_le_trans[rotated]) simp
  then have nz: "x \<noteq> 0" by simp
  have e: "\<lfloor>log 2 \<bar>x\<bar>\<rfloor> = k"
    using pos assms floor_log_eq_powr_iff[of "\<bar>x\<bar>" 2 k] by simp
  show ?thesis by (simp add: f32_round_def nz e Let_def)
qed

lemma powr_m5: "(2::real) powr real_of_int (- 5) = 1 / 2 ^ 5"
  and powr_m4: "(2::real) powr real_of_int (- 5 + 1) = 1 / 2 ^ 4"
  and powr_m28: "(2::real) powr (real_of_int (- 5) - 23) = 1 / 2 ^ 28"
proof -
  have a: "(2::real) powr (- real n) = 1 / 2 ^ n" for n :: nat
    by (simp add: powr_minus powr_realpow inverse_eq_divide)
  show "(2::real) powr real_of_int (- 5) = 1 / 2 ^ 5" using a[of 5] by simp
  show "(2::real) powr real_of_int (- 5 + 1) = 1 / 2 ^ 4" using a[of 4] by simp
  show "(2::real) powr (real_of_int (- 5) - 23) = 1 / 2 ^ 28" using a[of 28] by simp
qed

lemma f32_round_near_005:
  assumes "1 / 2 ^ 5 \<le> \<bar>x\<bar>" "\<bar>x\<bar> < 1 / 2 ^ 4"
  shows "f32_round x = real_of_int (round (x * 2 ^ 28)) / 2 ^ 28"
proof -
  have "f32_round x = real_of_int (round (x / 2 powr (real_of_int (- 5) - 23)))
      * 2 powr (real_of_int (- 5) - 23)"
    by (rule f32_round_binade_abs) (use assms in \<open>simp_all only: powr_m5 powr_m4\<close>)
  then show ?thesis by (simp only: powr_m28) simp
qed

text \<open>The constant \<^verbatim>\<open>0.05f\<close> is \<open>13421773 / 2^28\<close>, just above the decimal 0.05.\<close>

lemma stagnant_dt_value: "STAGNANT_DT = 13421773 / 2 ^ 28"
proof -
  have "\<bar>(0.05::real) * 2 ^ 28 - of_int 13421773\<bar> < 1 / 2" by simp
  then have "round ((0.05::real) * 2 ^ 28) = 13421773" by (rule round_unique')
  then show ?thesis
    unfolding STAGNANT_DT_def by (subst f32_round_near_005) simp_all
qed

lemma stagnant_dt_is_f32: "is_f32 (13421773 / 2 ^ 28)"
proof -
  have "round ((13421773 / 2 ^ 28 :: real) * 2 ^ 28) = 13421773"
    by (rule round_unique') simp
  then show ?thesis
    unfolding is_f32_def by (subst f32_round_near_005) simp_all
qed

text \<open>No float lies between the decimal 0.05 and \<^verbatim>\<open>0.05f\<close>.\<close>

lemma no_f32_between:
  assumes "is_f32 x" "0.05 \<le> x"
  shows "STAGNANT_DT \<le> x"
proof (rule ccontr)
  assume "\<not> STAGNANT_DT \<le> x"
  then have lt: "x < 13421773 / 2 ^ 28" by (simp add: stagnant_dt_value)
  have r: "1 / 2 ^ 5 \<le> \<bar>x\<bar>" "\<bar>x\<bar> < 1 / 2 ^ 4" using assms(2) lt by simp_all
  define m where "m = round (x * 2 ^ 28)"
  have "x = real_of_int m / 2 ^ 28"
    using assms(1) f32_round_near_005[OF r] by (simp add: is_f32_def m_def)
  then have x: "x * 2 ^ 28 = real_of_int m" by simp
  from assms(2) have "(0.05::real) * 2 ^ 28 \<le> x * 2 ^ 28" by simp
  then have "(13421772::real) < real_of_int m" unfolding x by simp
  then have "13421772 < m" by linarith
  moreover from lt have "x * 2 ^ 28 < 13421773" by simp
  then have "real_of_int m < 13421773" unfolding x .
  then have "m < 13421773" by linarith
  ultimately show False by simp
qed

lemma f32_ge_threshold_iff:
  assumes "is_f32 x"
  shows "0.05 \<le> x \<longleftrightarrow> STAGNANT_DT \<le> x"
proof
  assume "0.05 \<le> x"
  with assms show "STAGNANT_DT \<le> x" by (rule no_f32_between)
next
  assume "STAGNANT_DT \<le> x"
  then show "0.05 \<le> x" by (simp add: stagnant_dt_value)
qed

lemma stagnant_dt_facts:
  "0.05 < STAGNANT_DT" "0 < STAGNANT_DT" "is_f32 STAGNANT_DT"
  using stagnant_dt_is_f32 by (simp_all add: stagnant_dt_value)

lemma dominant_threshold_peaks: "dominant [STAGNANT_DT, 0, 0, 0] = 0"
  using stagnant_dt_facts(2) by (simp add: dominant4)

lemma direction_defined_ge:
  "direction_deg (flow_estimate res peak_dt peak_time) \<noteq> - 1
      \<longleftrightarrow> 0.05 \<le> peak_dt ! dominant peak_dt"
proof (cases "peak_dt ! dominant peak_dt < 0.05")
  case True
  then show ?thesis by (simp add: flow_estimate_stagnant)
next
  case False
  have "0 \<le> flow_direction peak_dt" by (rule flow_direction_nonneg)
  then have "flow_direction peak_dt \<noteq> - 1" by simp
  with False show ?thesis by (simp add: flow_estimate_flowing)
qed

text \<open>A number with a significand of at most 24 bits rounds to itself.\<close>

lemma f32_round_dyadic:
  assumes "\<bar>m\<bar> < 2 ^ 24"
  shows "f32_round (real_of_int m / 2 ^ k) = real_of_int m / 2 ^ k"
proof (cases "m = 0")
  case True
  then show ?thesis by (simp add: f32_round_def)
next
  case False
  define x where "x = real_of_int m / 2 ^ k"
  define e where "e = \<lfloor>log 2 \<bar>x\<bar>\<rfloor>"
  have nz: "x \<noteq> 0" using False by (simp add: x_def)
  have ax: "\<bar>x\<bar> = real_of_int \<bar>m\<bar> / 2 ^ k" by (simp add: x_def)
  from assms have "real_of_int \<bar>m\<bar> < 2 ^ 24"
    by (metis of_int_less_iff of_int_numeral of_int_power)
  then have "\<bar>x\<bar> < 2 ^ 24 / 2 ^ k" unfolding ax by (simp add: divide_strict_right_mono)
  also have "\<dots> = 2 powr (24 - real k)"
    by (simp add: powr_diff powr_realpow)
  finally have "log 2 \<bar>x\<bar> < 24 - real k"
    using nz by (simp add: log_less_iff)
  then have "real_of_int e < 24 - real k" unfolding e_def by linarith
  then have le: "e \<le> 23 - int k" by linarith
  define n where "n = nat (23 - int k - e)"
  have en: "real_of_int e - 23 = - (real k + real n)"
    using le by (simp add: n_def)
  have "(2::real) powr (- (real k + real n)) = inverse (2 powr (real k + real n))"
    by (rule powr_minus)
  also have "\<dots> = inverse (2 powr real (k + n))"
    by (simp only: of_nat_add)
  also have "\<dots> = inverse (2 ^ (k + n))"
    by (simp only: powr_realpow zero_less_numeral)
  also have "\<dots> = 1 / (2 ^ k * 2 ^ n)"
    by (simp add: power_add inverse_eq_divide)
  finally have u: "2 powr (real_of_int e - 23) = 1 / (2 ^ k * 2 ^ n)"
    unfolding en .
  have q: "x / (1 / (2 ^ k * 2 ^ n)) = real_of_int (m * 2 ^ n)"
    by (simp add: x_def)
  have "f32_round x = real_of_int (round (x / 2 powr (real_of_int e - 23)))
      * 2 powr (real_of_int e - 23)"
    using nz by (simp add: f32_round_def e_def Let_def)
  also have "\<dots> = real_of_int (m * 2 ^ n) * (1 / (2 ^ k * 2 ^ n))"
    unfolding u q round_of_int ..
  also have "\<dots> = x" by (simp add: x_def)
  finally show ?thesis unfolding x_def .
qed

lemma q15:
  assumes "\<bar>m\<bar> < 2 ^ 24" "x = real_of_int m / 2 ^ 15"
  shows "f32_round x = x"
  unfolding assms(2) using assms(1) by (rule f32_round_dyadic)

lemma f32_round_int:
  assumes "\<bar>m\<bar> < 2 ^ 24"
  shows "f32_round (real_of_int m) = real_of_int m"
  using f32_round_dyadic[OF assms, of 0] by simp

text \<open>The baseline and the rise of the two channels, operation by operation.\<close>

lemma threshold_sum:
  "fold (\<lambda>t acc. f32_round (acc + t)) threshold_readings 0 = - 1913 / 2 ^ 12"
proof -
  have s1: "f32_round (0 + 1972351 / 2 ^ 15) = 1972351 / 2 ^ 15"
    using q15[of 1972351 "1972351 / 2 ^ 15"] by simp
  have s2: "f32_round (1972351 / 2 ^ 15 + - 1987455 / 2 ^ 15) = - 15104 / 2 ^ 15"
    (is "f32_round ?x = ?y")
  proof -
    have "?x = ?y" by simp
    moreover have "f32_round ?y = ?y" by (rule q15[of "- 15104"]) simp_all
    ultimately show ?thesis by simp
  qed
  have step: "f32_round (real_of_int m / 2 ^ 15 + - 25 / 2 ^ 15) = real_of_int (m - 25) / 2 ^ 15"
    if "\<bar>m - 25\<bar> < 2 ^ 24" for m
  proof -
    have "real_of_int m / 2 ^ 15 + - 25 / 2 ^ 15 = real_of_int (m - 25) / 2 ^ 15"
      by (simp add: diff_divide_distrib)
    then show ?thesis by (simp only: f32_round_dyadic[OF that])
  qed
  have s3: "f32_round (- 15104 / 2 ^ 15 + - 25 / 2 ^ 15) = - 15129 / 2 ^ 15"
    using step[of "- 15104"] by simp
  have s4: "f32_round (- 15129 / 2 ^ 15 + - 25 / 2 ^ 15) = - 15154 / 2 ^ 15"
    using step[of "- 15129"] by simp
  have s5: "f32_round (- 15154 / 2 ^ 15 + - 25 / 2 ^ 15) = - 15179 / 2 ^ 15"
    using step[of "- 15154"] by simp
  have s6: "f32_round (- 15179 / 2 ^ 15 + - 25 / 2 ^ 15) = - 15204 / 2 ^ 15"
    using step[of "- 15179"] by simp
  have s7: "f32_round (- 15204 / 2 ^ 15 + - 25 / 2 ^ 15) = - 15229 / 2 ^ 15"
    using step[of "- 15204"] by simp
  have s8: "f32_round (- 15229 / 2 ^ 15 + - 25 / 2 ^ 15) = - 15254 / 2 ^ 15"
    using step[of "- 15229"] by simp
  have s9: "f32_round (- 15254 / 2 ^ 15 + - 25 / 2 ^ 15) = - 15279 / 2 ^ 15"
    using step[of "- 15254"] by simp
  have s10: "f32_round (- 15279 / 2 ^ 15 + - 25 / 2 ^ 15) = - 15304 / 2 ^ 15"
    using step[of "- 15279"] by simp
  have e: "(- 15304 / 2 ^ 15 :: real) = - 1913 / 2 ^ 12" by simp
  show ?thesis
    unfolding threshold_readings_def fold_simps o_apply s1 s2 s3 s4 s5 s6 s7 s8 s9 s10 e ..
qed

lemma threshold_baseline: "baseline_f32 threshold_readings = - 12537037 / 2 ^ 28"
proof -
  have "round ((- 1913 / 2 ^ 12 / 10 :: real) * 2 ^ 28) = - 12537037"
    by (rule round_unique') simp
  then have "f32_round (- 1913 / 2 ^ 12 / 10) = - 12537037 / 2 ^ 28"
    by (subst f32_round_near_005) simp_all
  then show ?thesis unfolding baseline_f32_def threshold_sum .
qed

lemma sentinel_baseline_f32: "baseline_f32 sentinel_readings = - 999"
proof -
  have step: "f32_round (real_of_int m + - 999) = real_of_int (m - 999)"
    if "\<bar>m - 999\<bar> < 2 ^ 24" for m
    using f32_round_int[OF that] by simp
  have s: "f32_round (0 + - 999) = - 999" "f32_round (- 999 + - 999) = - 1998"
    "f32_round (- 1998 + - 999) = - 2997" "f32_round (- 2997 + - 999) = - 3996"
    "f32_round (- 3996 + - 999) = - 4995" "f32_round (- 4995 + - 999) = - 5994"
    "f32_round (- 5994 + - 999) = - 6993" "f32_round (- 6993 + - 999) = - 7992"
    "f32_round (- 7992 + - 999) = - 8991" "f32_round (- 8991 + - 999) = - 9990"
    using step[of 0] step[of "- 999"] step[of "- 1998"] step[of "- 2997"] step[of "- 3996"]
      step[of "- 4995"] step[of "- 5994"] step[of "- 6993"] step[of "- 7992"]
      step[of "- 8991"]
    by simp_all
  have q: "(- 9990 / 10 :: real) = - 999" by simp
  have r: "f32_round (- 999) = - 999" using f32_round_int[of "- 999"] by simp
  show ?thesis
    unfolding baseline_f32_def sentinel_readings_def fold_simps o_apply s q r ..
qed

lemma threshold_rise: "rise_f32 (27 / 2 ^ 13) (- 12537037 / 2 ^ 28) = STAGNANT_DT"
proof -
  have "(27 / 2 ^ 13 - - 12537037 / 2 ^ 28 :: real) = 13421773 / 2 ^ 28" by simp
  then show ?thesis
    unfolding rise_f32_def stagnant_dt_value
    using stagnant_dt_is_f32 by (simp only: is_f32_def)
qed

lemma sentinel_rise: "rise_f32 (- 999) (- 999) = 0"
  by (simp add: rise_f32_def f32_round_def)

lemma threshold_track:
  "track_f32 (0, 0) (27 / 2 ^ 13) (baseline_f32 threshold_readings) 50 = (STAGNANT_DT, 50)"
  unfolding track_f32_def threshold_baseline threshold_rise
  using stagnant_dt_facts(2) by (simp add: Let_def)

lemma sentinel_track:
  "track_f32 (0, 0) (- 999) (baseline_f32 sentinel_readings) 50 = (0, 0)"
  unfolding track_f32_def sentinel_baseline_f32 sentinel_rise by (simp add: Let_def)

lemma threshold_direction_f32:
  "flow_direction_f32 f32_sines f32_cosines [STAGNANT_DT, 0, 0, 0] = 0"
  unfolding flow_direction_f32_def sin_cos_sums_tab_def upt_0_4
  using stagnant_dt_facts(2)
  by (simp add: f32_sines_def f32_cosines_def atan2f_def wrap_direction_f32_def Let_def)

section \<open>The claims\<close>

text \<open>
  C1. Whenever the monitoring phase ends with a dominant peak rise below 0.05, the cycle
  returns velocity 0, direction - 1 and \<open>valid = true\<close>. Four peaks of 0.04 are such a
  case, whatever the peak times and the previous contents of the result.
\<close>

theorem stagnant_result:
  "(measure_peaks inp s = Some ((peak_dt, peak_time), s') \<and>
      peak_dt ! dominant peak_dt < 0.05 \<longrightarrow>
      (\<exists>r. run_heat_pulse inp s = Some (r, s') \<and>
           velocity_cm_day r = 0 \<and> direction_deg r = - 1 \<and> valid r)) \<and>
   velocity_cm_day (flow_estimate result [0.04, 0.04, 0.04, 0.04] tms) = 0 \<and>
   direction_deg (flow_estimate result [0.04, 0.04, 0.04, 0.04] tms) = - 1 \<and>
   valid (flow_estimate result [0.04, 0.04, 0.04, 0.04] tms)"
proof -
  have "[0.04, 0.04, 0.04, 0.04] ! dominant [0.04, 0.04, 0.04, 0.04] < (0.05::real)"
    by (simp add: dominant4)
  then show ?thesis
    by (auto simp: run_heat_pulse_eq flow_estimate_stagnant)
qed

theorem stagnant_result_witness:
  "measure_peaks quiet_input s_init = Some (([0, 0, 0, 0], [0, 0, 0, 0]), s_final) \<and>
   [0, 0, 0, 0] ! dominant [0, 0, 0, 0] < (0.05::real) \<and>
   (\<exists>r. run_heat_pulse quiet_input s_init = Some (r, s_final) \<and>
        velocity_cm_day r = 0 \<and> direction_deg r = - 1 \<and> valid r)"
  using stagnant_result[of quiet_input s_init "[0, 0, 0, 0]" "[0, 0, 0, 0]" s_final]
  by (simp add: quiet_measure dominant4)

text \<open>
  C2. Whenever the monitoring phase ends with a dominant peak rise of at least 0.05, the
  returned velocity is \<open>FLOW_CAL_K\<close> divided by the dominant channel's peak time floored at
  0.5 s: \<open>K / peak_time\<close> above 0.5 s and \<open>K / 0.5\<close> at or below it. With \<open>K = 900\<close>, peak
  times 0.1 s, 0.5 s and 0 s all give 1800.
\<close>

theorem velocity_inverse_time:
  "(measure_peaks inp s = Some ((peak_dt, peak_time), s') \<and>
      \<not> peak_dt ! dominant peak_dt < 0.05 \<longrightarrow>
      (\<exists>r. run_heat_pulse inp s = Some (r, s') \<and>
           velocity_cm_day r = FLOW_CAL_K / max (peak_time ! dominant peak_dt) 0.5 \<and>
           (peak_time ! dominant peak_dt > 0.5 \<longrightarrow>
              velocity_cm_day r = FLOW_CAL_K / peak_time ! dominant peak_dt) \<and>
           (peak_time ! dominant peak_dt \<le> 0.5 \<longrightarrow>
              velocity_cm_day r = FLOW_CAL_K / 0.5))) \<and>
   FLOW_CAL_K = 900 \<and>
   velocity_cm_day (flow_estimate result [1, 0, 0, 0] [0.1, 0, 0, 0]) = 1800 \<and>
   velocity_cm_day (flow_estimate result [1, 0, 0, 0] [0.5, 0, 0, 0]) = 1800 \<and>
   velocity_cm_day (flow_estimate result [1, 0, 0, 0] [0, 0, 0, 0]) = 1800"
proof -
  have d: "dominant [1, 0, 0, 0] = 0" by (simp add: dominant4)
  have v: "flow_velocity t = FLOW_CAL_K / max t 0.5" for t
    by (simp add: flow_velocity_def max_def)
  show ?thesis
    by (auto simp: run_heat_pulse_eq flow_estimate_flowing d v max_def FLOW_CAL_K_def)
qed

theorem velocity_inverse_time_witness:
  "measure_peaks warm_input s_init =
     Some (([convert_raw 13000 - 25, convert_raw 13000 - 25, 0, 0], [50, 50, 0, 0]), s_final) \<and>
   \<not> [convert_raw 13000 - 25, convert_raw 13000 - 25, 0, 0]
        ! dominant [convert_raw 13000 - 25, convert_raw 13000 - 25, 0, 0] < 0.05 \<and>
   (\<exists>r. run_heat_pulse warm_input s_init = Some (r, s_final) \<and> velocity_cm_day r = 18)"
proof -
  have ns: "\<not> [convert_raw 13000 - 25, convert_raw 13000 - 25, 0, 0]
        ! dominant [convert_raw 13000 - 25, convert_raw 13000 - 25, 0, 0] < 0.05"
    using convert_raw_13000_lower by (simp add: warm_dominant)
  show ?thesis
    using velocity_inverse_time[of warm_input s_init
        "[convert_raw 13000 - 25, convert_raw 13000 - 25, 0, 0]" "[50, 50, 0, 0]" s_final]
      ns
    by (auto simp add: warm_measure warm_dominant FLOW_CAL_K_def)
qed

text \<open>
  C3 states that the direction of a non-stagnant cycle is the weighted \<^verbatim>\<open>atan2\<close> in degrees
  and lies in \<open>[0, 360)\<close>. In single precision the range fails: for the peaks N = 1,
  S = 0.5, E = W = 0, and for any sine and cosine values with \<open>sinf(0) = 0\<close>, \<open>cosf(0) = 1\<close>,
  \<open>cosf = - 1\<close> at the bearing of S and a sine there between \<open>- 1e-7\<close> and 0, lines 128-137
  compute a direction of exactly 360: the angle before line 137 is a hair below 0, and
  adding \<^verbatim>\<open>360.0f\<close> to it rounds to \<^verbatim>\<open>360.0f\<close>.
\<close>

theorem north_south_direction_is_360:
  assumes "sines ! 0 = 0" "cosines ! 0 = 1" "cosines ! 2 = - 1"
    and "- (1 / 10 ^ 7) < sines ! 2" "sines ! 2 < 0"
  shows "flow_direction_f32 sines cosines [1, 0, 1 / 2, 0] = 360"
proof -
  have sums: "sin_cos_sums_tab sines cosines [1, 0, 1 / 2, 0] = (sines ! 2 / 2, 1 / 2)"
    unfolding sin_cos_sums_tab_def upt_0_4 using assms(1-3) by (simp add: Let_def)
  have at: "atan2f (sines ! 2 / 2) (1 / 2) = arctan (sines ! 2)"
    by (simp add: atan2f_def)
  from small_angle_degrees[OF assms(4,5)]
  have "wrap_direction_f32 (arctan (sines ! 2) * 180 / pi) = 360"
    by (intro wrap_rounds_to_360) simp_all
  then show ?thesis by (simp add: flow_direction_f32_def sums at Let_def)
qed

theorem north_south_direction_is_360_witness:
  "f32_sines ! 0 = 0 \<and> f32_cosines ! 0 = 1 \<and> f32_cosines ! 2 = - 1 \<and>
   - (1 / 10 ^ 7) < f32_sines ! 2 \<and> f32_sines ! 2 < 0 \<and>
   flow_direction_f32 f32_sines f32_cosines [1, 0, 1 / 2, 0] = 360"
proof -
  have h: "f32_sines ! 0 = 0" "f32_cosines ! 0 = 1" "f32_cosines ! 2 = - 1"
    "- (1 / 10 ^ 7) < f32_sines ! 2" "f32_sines ! 2 < 0"
    by (simp_all add: f32_sines_def f32_cosines_def)
  from north_south_direction_is_360[OF h] h show ?thesis by simp
qed

text \<open>
  C4. Among four peak rises the scan selects one channel: its rise is the largest, every
  channel before it has a strictly smaller rise (a tie goes to the lowest index), and it
  is the only channel with these two properties.
\<close>

theorem dominant_first_maximum:
  assumes "length peak_dt = 4"
  shows "dominant peak_dt < 4 \<and>
    (\<forall>j<4. peak_dt ! j \<le> peak_dt ! dominant peak_dt) \<and>
    (\<forall>j<dominant peak_dt. peak_dt ! j < peak_dt ! dominant peak_dt) \<and>
    (\<forall>m<4. (\<forall>j<4. peak_dt ! j \<le> peak_dt ! m) \<and> (\<forall>j<m. peak_dt ! j < peak_dt ! m)
        \<longrightarrow> m = dominant peak_dt)"
proof -
  obtain a b c d where pd: "peak_dt = [a, b, c, d]"
    using length4_cases[OF assms] by blast
  have 1: "dominant peak_dt < 4"
    unfolding pd dominant4 by (simp add: Let_def)
  have 2: "\<forall>j<4. peak_dt ! j \<le> peak_dt ! dominant peak_dt"
    unfolding pd dominant4 by (auto simp: less4_cases Let_def)
  have 3: "\<forall>j<dominant peak_dt. peak_dt ! j < peak_dt ! dominant peak_dt"
    unfolding pd dominant4
    by (auto simp: less4_cases Let_def nth_Cons' less_Suc_eq numeral_eq_Suc)
  have 4: "m = dominant peak_dt"
    if m: "m < 4" and le: "\<forall>j<4. peak_dt ! j \<le> peak_dt ! m"
      and lt: "\<forall>j<m. peak_dt ! j < peak_dt ! m" for m
  proof (rule ccontr)
    assume "m \<noteq> dominant peak_dt"
    then consider "m < dominant peak_dt" | "dominant peak_dt < m" by linarith
    then show False
    proof cases
      case 1
      with 3 have "peak_dt ! m < peak_dt ! dominant peak_dt" by simp
      moreover from le \<open>dominant peak_dt < 4\<close>
      have "peak_dt ! dominant peak_dt \<le> peak_dt ! m" by simp
      ultimately show False by simp
    next
      case 2
      with lt have "peak_dt ! dominant peak_dt < peak_dt ! m" by simp
      moreover from m \<open>\<forall>j<4. peak_dt ! j \<le> peak_dt ! dominant peak_dt\<close>
      have "peak_dt ! m \<le> peak_dt ! dominant peak_dt" by simp
      ultimately show False by simp
    qed
  qed
  from 1 2 3 4 show ?thesis by blast
qed

theorem dominant_first_maximum_witness:
  "length [0.3, 0.7, 0.7, 0.1 :: real] = 4 \<and>
   dominant [0.3, 0.7, 0.7, 0.1] = 1 \<and>
   [0.3, 0.7, 0.7, 0.1 :: real] ! 0 < [0.3, 0.7, 0.7, 0.1] ! dominant [0.3, 0.7, 0.7, 0.1] \<and>
   [0.3, 0.7, 0.7, 0.1 :: real] ! 2 \<le> [0.3, 0.7, 0.7, 0.1] ! dominant [0.3, 0.7, 0.7, 0.1] \<and>
   [0.3, 0.7, 0.7, 0.1 :: real] ! 3 \<le> [0.3, 0.7, 0.7, 0.1] ! dominant [0.3, 0.7, 0.7, 0.1]"
proof -
  have d: "dominant [0.3, 0.7, 0.7, 0.1] = 1" by (simp add: dominant4)
  show ?thesis
    using dominant_first_maximum[of "[0.3, 0.7, 0.7, 0.1]"] by (simp add: d)
qed

text \<open>
  C5, as stated: the direction is defined (not - 1) if and only if the dominant peak rise
  strictly exceeds the stagnant-flow threshold. The threshold of line 114 is the constant
  \<^verbatim>\<open>0.05f\<close> and the test is \<^verbatim>\<open>peak_dt[max_idx] < 0.05f\<close>, so a dominant rise equal to the
  threshold is not stagnant and gets a direction. A cycle reaches that state: when
  channel N reads \<open>threshold_readings\<close> during the baseline and 0.0032958984375 at a sample
  50 s into the monitoring phase, and another channel reads the sentinel throughout, the
  single-precision arithmetic of lines 71-78 and 98-102 leaves the peak \<^verbatim>\<open>0.05f\<close> on N and
  0 on the other channel. With the peaks \<open>{0.05f, 0, 0, 0}\<close> the direction is 0 (north),
  computed with the target's sines as well as with exact ones: it is defined, although the
  dominant rise does not exceed the threshold.
\<close>

theorem direction_defined_at_threshold:
  "track_f32 (0, 0) (27 / 2 ^ 13) (baseline_f32 threshold_readings) 50 = (STAGNANT_DT, 50) \<and>
   track_f32 (0, 0) (- 999) (baseline_f32 sentinel_readings) 50 = (0, 0) \<and>
   STAGNANT_DT = 13421773 / 2 ^ 28 \<and>
   flow_direction_f32 f32_sines f32_cosines [STAGNANT_DT, 0, 0, 0] = 0 \<and>
   \<not> (direction_deg (flow_estimate result_init [STAGNANT_DT, 0, 0, 0] [50, 0, 0, 0]) \<noteq> - 1
        \<longleftrightarrow> STAGNANT_DT < [STAGNANT_DT, 0, 0, 0] ! dominant [STAGNANT_DT, 0, 0, 0])"
proof (intro conjI)
  show "track_f32 (0, 0) (27 / 2 ^ 13) (baseline_f32 threshold_readings) 50 = (STAGNANT_DT, 50)"
    by (rule threshold_track)
  show "track_f32 (0, 0) (- 999) (baseline_f32 sentinel_readings) 50 = (0, 0)"
    by (rule sentinel_track)
  show "STAGNANT_DT = 13421773 / 2 ^ 28" by (rule stagnant_dt_value)
  show "flow_direction_f32 f32_sines f32_cosines [STAGNANT_DT, 0, 0, 0] = 0"
    by (rule threshold_direction_f32)
  have "direction_deg (flow_estimate result_init [STAGNANT_DT, 0, 0, 0] [50, 0, 0, 0]) \<noteq> - 1"
    unfolding direction_defined_ge dominant_threshold_peaks
    using stagnant_dt_facts(1) by simp
  then show "\<not> (direction_deg (flow_estimate result_init [STAGNANT_DT, 0, 0, 0] [50, 0, 0, 0])
        \<noteq> - 1
        \<longleftrightarrow> STAGNANT_DT < [STAGNANT_DT, 0, 0, 0] ! dominant [STAGNANT_DT, 0, 0, 0])"
    by (simp add: dominant_threshold_peaks)
qed

text \<open>
  C5, amended: the direction is defined (not - 1) if and only if the dominant peak rise is
  at least the stagnant-flow threshold, that is, not below it. The embedding compares
  with the decimal 0.05: the first two parts are the equivalence for the estimator on any
  peaks and for every cycle that reaches it. For a dominant peak rise that is a float,
  as every peak rise of the firmware is, this is the comparison with the constant
  \<^verbatim>\<open>0.05f\<close> of line 114: the last two parts.
\<close>

theorem direction_defined_iff:
  "(direction_deg (flow_estimate result peak_dt peak_time) \<noteq> - 1
      \<longleftrightarrow> 0.05 \<le> peak_dt ! dominant peak_dt) \<and>
   (measure_peaks inp s = Some ((peak_dt, peak_time), s') \<longrightarrow>
      (\<exists>r. run_heat_pulse inp s = Some (r, s') \<and>
           (direction_deg r \<noteq> - 1 \<longleftrightarrow> 0.05 \<le> peak_dt ! dominant peak_dt))) \<and>
   (is_f32 (peak_dt ! dominant peak_dt) \<longrightarrow>
      (direction_deg (flow_estimate result peak_dt peak_time) \<noteq> - 1
         \<longleftrightarrow> STAGNANT_DT \<le> peak_dt ! dominant peak_dt)) \<and>
   (measure_peaks inp s = Some ((peak_dt, peak_time), s') \<and>
      is_f32 (peak_dt ! dominant peak_dt) \<longrightarrow>
      (\<exists>r. run_heat_pulse inp s = Some (r, s') \<and>
           (direction_deg r \<noteq> - 1 \<longleftrightarrow> STAGNANT_DT \<le> peak_dt ! dominant peak_dt)))"
  using direction_defined_ge f32_ge_threshold_iff
  by (auto simp: run_heat_pulse_eq)

theorem direction_defined_iff_witness:
  "is_f32 ([STAGNANT_DT, 0, 0, 0] ! dominant [STAGNANT_DT, 0, 0, 0]) \<and>
   STAGNANT_DT \<le> [STAGNANT_DT, 0, 0, 0] ! dominant [STAGNANT_DT, 0, 0, 0] \<and>
   direction_deg (flow_estimate result_init [STAGNANT_DT, 0, 0, 0] [50, 0, 0, 0]) \<noteq> - 1 \<and>
   measure_peaks warm_input s_init =
     Some (([convert_raw 13000 - 25, convert_raw 13000 - 25, 0, 0], [50, 50, 0, 0]), s_final) \<and>
   0.05 \<le> [convert_raw 13000 - 25, convert_raw 13000 - 25, 0, 0]
        ! dominant [convert_raw 13000 - 25, convert_raw 13000 - 25, 0, 0] \<and>
   (\<exists>r. run_heat_pulse warm_input s_init = Some (r, s_final) \<and> direction_deg r \<noteq> - 1) \<and>
   measure_peaks quiet_input s_init = Some (([0, 0, 0, 0], [0, 0, 0, 0]), s_final) \<and>
   is_f32 ([0, 0, 0, 0] ! dominant [0, 0, 0, 0]) \<and>
   \<not> STAGNANT_DT \<le> [0, 0, 0, 0] ! dominant [0, 0, 0, 0] \<and>
   (\<exists>r. run_heat_pulse quiet_input s_init = Some (r, s_final) \<and> direction_deg r = - 1)"
proof -
  have d0: "dominant [0, 0, 0, 0] = 0" by (simp add: dominant4)
  have z: "is_f32 0" by (simp add: is_f32_def f32_round_def)
  have a: "is_f32 ([STAGNANT_DT, 0, 0, 0] ! dominant [STAGNANT_DT, 0, 0, 0])"
    "STAGNANT_DT \<le> [STAGNANT_DT, 0, 0, 0] ! dominant [STAGNANT_DT, 0, 0, 0]"
    by (simp_all add: dominant_threshold_peaks stagnant_dt_facts)
  have b: "is_f32 ([0, 0, 0, 0] ! dominant [0, 0, 0, 0])"
    "\<not> STAGNANT_DT \<le> [0, 0, 0, 0] ! dominant [0, 0, 0, 0]"
    using stagnant_dt_facts(2) by (simp_all add: d0 z)
  have w: "0.05 \<le> [convert_raw 13000 - 25, convert_raw 13000 - 25, 0, 0]
        ! dominant [convert_raw 13000 - 25, convert_raw 13000 - 25, 0, 0]"
    using convert_raw_13000_lower by (simp add: warm_dominant)
  from direction_defined_iff[of result_init "[STAGNANT_DT, 0, 0, 0]" "[50, 0, 0, 0]"
        quiet_input s_init s_final] a
  have c: "direction_deg (flow_estimate result_init [STAGNANT_DT, 0, 0, 0] [50, 0, 0, 0]) \<noteq> - 1"
    by blast
  from direction_defined_iff[of result_init
        "[convert_raw 13000 - 25, convert_raw 13000 - 25, 0, 0]" "[50, 50, 0, 0]"
        warm_input s_init s_final] w warm_measure
  have d: "\<exists>r. run_heat_pulse warm_input s_init = Some (r, s_final) \<and> direction_deg r \<noteq> - 1"
    by blast
  from direction_defined_iff[of result_init "[0, 0, 0, 0]" "[0, 0, 0, 0]"
        quiet_input s_init s_final] b quiet_measure
  have e: "\<exists>r. run_heat_pulse quiet_input s_init = Some (r, s_final) \<and> direction_deg r = - 1"
    by blast
  from a b c d e w warm_measure quiet_measure show ?thesis by blast
qed

text \<open>
  C6. \<^verbatim>\<open>thermistor_temp\<close> returns the sentinel - 999 exactly when the resistance computed
  from the raw count is not positive; these are the counts up to 0 and from 26400 on. For
  every other count it returns a different value.
\<close>

theorem sentinel_iff_nonpositive_resistance:
  "(fst (thermistor_temp inp channel s) = - 999
      \<longleftrightarrow> r_therm_of (adc_sample inp (adc_reads s) channel) \<le> 0) \<and>
   (r_therm_of raw \<le> 0 \<longleftrightarrow> sint raw \<le> 0 \<or> 26400 \<le> sint raw)"
proof -
  have "fst (thermistor_temp inp channel s)
      = convert_raw (adc_sample inp (adc_reads s) channel)"
    by (simp add: thermistor_temp_def readADC_SingleEnded_def)
  moreover have "r_therm_of raw \<le> 0 \<longleftrightarrow> sint raw \<le> 0 \<or> 26400 \<le> sint raw"
    using r_therm_pos_iff[of raw] by auto
  ultimately show ?thesis by (simp add: convert_raw_sentinel_iff)
qed




text \<open>
  C8. Of two raw counts whose voltages lie strictly between 0 and 3.3 V, the one with the
  higher voltage converts to the strictly lower temperature.
\<close>

theorem temperature_decreasing_in_voltage:
  assumes "adc_sample inp (adc_reads s) channel = a"
    and "adc_sample inp' (adc_reads s') channel' = b"
    and "0 < voltage_of a" and "voltage_of a < voltage_of b" and "voltage_of b < 3.3"
  shows "fst (thermistor_temp inp' channel' s') < fst (thermistor_temp inp channel s)"
proof -
  have 1: "0 < sint a" using assms(3) by (simp add: voltage_of_eq del: of_int_sint)
  have 2: "sint a < sint b" using assms(4) by (simp add: voltage_of_eq del: of_int_sint)
  have 3: "sint b < 26400" using assms(5) by (simp add: voltage_of_eq del: of_int_sint)
  have "convert_raw b < convert_raw a" by (rule convert_raw_decreasing[OF 1 2 3])
  then show ?thesis
    using assms(1,2) by (simp add: thermistor_temp_def readADC_SingleEnded_def)
qed

theorem temperature_decreasing_in_voltage_witness:
  "voltage_of 13000 = 1.625 \<and> voltage_of 13200 = 1.65 \<and>
   fst (thermistor_temp (steady_input 13200) 0 s_init) = 25 \<and>
   25 < fst (thermistor_temp (steady_input 13000) 0 s_init)"
proof -
  have v: "voltage_of 13000 = 1.625" "voltage_of 13200 = 1.65"
    by (simp_all add: voltage_of_def)
  have t: "fst (thermistor_temp (steady_input 13200) 0 s_init) = 25"
    by (simp add: steady_input_def thermistor_temp_def readADC_SingleEnded_def
        convert_raw_13200)
  have "fst (thermistor_temp (steady_input 13200) 0 s_init)
      < fst (thermistor_temp (steady_input 13000) 0 s_init)"
    using temperature_decreasing_in_voltage[of "steady_input 13000" s_init 0 13000
        "steady_input 13200" s_init 0 13200]
    by (simp add: v steady_input_def)
  with v t show ?thesis by simp
qed

text \<open>
  C9. When the monitoring phase has ended, no channel's peak rise is negative, whatever
  the readings were (sentinel readings included), and the cycle returns a result whose
  four echoed \<open>peak_temps\<close> are not negative either.
\<close>

theorem peaks_never_negative:
  assumes "measure_peaks inp s = Some ((peak_dt, peak_time), s')"
  shows "(\<forall>j<4. 0 \<le> peak_dt ! j) \<and>
    (\<exists>r. run_heat_pulse inp s = Some (r, s') \<and> (\<forall>j<4. 0 \<le> peak_temps r ! j))"
proof -
  have ok: "peaks_ok (peak_dt, peak_time)" by (rule measure_peaks_ok[OF assms])
  then have nn: "\<forall>j<4. 0 \<le> peak_dt ! j" by (simp add: peaks_ok_def)
  from ok
  have "peak_temps (flow_estimate (result_init\<lparr>valid := False\<rparr>) peak_dt peak_time) = peak_dt"
    by (simp add: peaks_ok_def flow_estimate_arrays)
  with nn show ?thesis by (simp add: run_heat_pulse_eq[OF assms])
qed

theorem peaks_never_negative_witness:
  "measure_peaks dropout_input s_init = Some (([0, 0, 0, 0], [0, 0, 0, 0]), s_final) \<and>
   fst (thermistor_temp dropout_input 0 (s_init\<lparr>adc_reads := 40\<rparr>)) = - 999 \<and>
   (\<exists>r. run_heat_pulse dropout_input s_init = Some (r, s_final) \<and>
        (\<forall>j<4. 0 \<le> peak_temps r ! j))"
proof -
  have t: "fst (thermistor_temp dropout_input 0 (s_init\<lparr>adc_reads := 40\<rparr>)) = - 999"
    by (simp add: dropout_input_def s_init_def thermistor_temp_def readADC_SingleEnded_def
        convert_raw_0)
  show ?thesis
    using peaks_never_negative[of dropout_input s_init "[0, 0, 0, 0]" "[0, 0, 0, 0]" s_final]
    by (simp add: dropout_measure t)
qed

text \<open>
  C10, as stated: for every trace of ADC readings and clock values \<^verbatim>\<open>run_heat_pulse\<close>
  returns a result with \<open>valid = true\<close>. On a clock that shows 0 at every read the test of
  line 92 never fails: the loop does not end and the cycle returns nothing.
\<close>

theorem stuck_clock_never_returns:
  "run_heat_pulse stuck_input s_init = None"
  by (rule run_heat_pulse_stuck_clock[where c = 0]) (simp add: stuck_input_def)

text \<open>
  C10, amended: every result \<^verbatim>\<open>run_heat_pulse\<close> returns has \<open>valid = true\<close>, for every trace
  of ADC and clock values; and it does return one whenever some loop test finds the
  monitoring deadline reached.
\<close>

theorem result_always_valid:
  "(\<forall>r s'. run_heat_pulse inp s = Some (r, s') \<longrightarrow> valid r) \<and>
   (deadline_at inp s k \<longrightarrow> (\<exists>r s'. run_heat_pulse inp s = Some (r, s') \<and> valid r))"
proof -
  have 1: "valid r" if "run_heat_pulse inp s = Some (r, s')" for r s'
    using run_heat_pulse_SomeD[OF that] by auto
  have 2: "\<exists>r s'. run_heat_pulse inp s = Some (r, s') \<and> valid r" if "deadline_at inp s k"
  proof -
    from measure_peaks_terminates[OF that] obtain pd pt s' where
      "measure_peaks inp s = Some ((pd, pt), s')" by auto
    from run_heat_pulse_eq[OF this] show ?thesis by auto
  qed
  from 1 2 show ?thesis by blast
qed

theorem result_always_valid_witness:
  "deadline_at quiet_input s_init 1 \<and>
   (\<exists>r s'. run_heat_pulse quiet_input s_init = Some (r, s') \<and> valid r)"
proof -
  have d: "deadline_at quiet_input s_init 1"
    by (simp add: deadline_at_def quiet_input_def s_init_def fast_clock_def
        FLOW_MONITOR_MS_def)
  show ?thesis using result_always_valid[of quiet_input s_init 1] d by simp
qed

end
